theory Spec2Isabelle
  imports Main "HOL-Library.Char_ord" "HOL-Library.List_Lexorder"
begin

section \<open>Python values used by bakker/checkpoint.py\<close>

text \<open>
  The exceptions the modelled code can raise. \<open>IllTyped\<close> is not a Python exception: it
  marks a record whose \<open>name\<close>, \<open>checksum\<close> or \<open>permissions\<close> is not a string, a string
  and an integer; the Python stores any value there, the nodes of this model are typed as
  TreeNode documents them.
\<close>

datatype py_error = KeyError | TypeError | AssertionError | IndexError | ValueError
  | AttributeError | IllTyped

text \<open>
  A value as \<open>json.loads\<close> returns it and \<open>to_dict\<close> builds it. A dict is an association
  list in insertion order; \<open>d[k]\<close> is \<open>map_of\<close>.
\<close>

datatype jv = JNull | JInt int | JStr string | JList "jv list" | JDict "(string \<times> jv) list"

fun getitem :: "jv \<Rightarrow> string \<Rightarrow> py_error + jv" where
  "getitem (JDict kvs) k = (case map_of kvs k of None \<Rightarrow> Inl KeyError | Some v \<Rightarrow> Inr v)"
| "getitem _ k = Inl TypeError"

text \<open>
  \<open>children[k] = v\<close> on a Python dict: an existing key keeps its position and takes the
  new value, a new key goes to the end.
\<close>

fun dict_set :: "('k \<times> 'v) list \<Rightarrow> 'k \<Rightarrow> 'v \<Rightarrow> ('k \<times> 'v) list" where
  "dict_set [] k v = [(k, v)]"
| "dict_set ((k', v') # rest) k v =
     (if k' = k then (k, v) # rest else (k', v') # dict_set rest k v)"

section \<open>The node hierarchy\<close>

text \<open>
  TreeNode and its three subclasses: name, checksum, permissions, and for a directory
  the dict \<open>children\<close> from child name to child node.
\<close>

datatype node =
    DirectoryNode string string int "(string \<times> node) list"
  | FileNode string string int
  | SymlinkNode string string int

fun name :: "node \<Rightarrow> string" where
  "name (DirectoryNode n c p ch) = n"
| "name (FileNode n c p) = n"
| "name (SymlinkNode n c p) = n"

fun checksum :: "node \<Rightarrow> string" where
  "checksum (DirectoryNode n c p ch) = c"
| "checksum (FileNode n c p) = c"
| "checksum (SymlinkNode n c p) = c"

fun permissions :: "node \<Rightarrow> int" where
  "permissions (DirectoryNode n c p ch) = p"
| "permissions (FileNode n c p) = p"
| "permissions (SymlinkNode n c p) = p"

fun to_dict :: "node \<Rightarrow> jv" and to_dict_values :: "(string \<times> node) list \<Rightarrow> jv list" where
  "to_dict (DirectoryNode n c p ch) =
     JDict [(''name'', JStr n), (''checksum'', JStr c), (''permissions'', JInt p),
            (''children'', JList (to_dict_values ch)), (''type'', JStr ''directory'')]"
| "to_dict (FileNode n c p) =
     JDict [(''name'', JStr n), (''checksum'', JStr c), (''permissions'', JInt p),
            (''type'', JStr ''file'')]"
| "to_dict (SymlinkNode n c p) =
     JDict [(''name'', JStr n), (''checksum'', JStr c), (''permissions'', JInt p),
            (''type'', JStr ''symlink'')]"
| "to_dict_values [] = []"
| "to_dict_values ((k, child) # rest) = to_dict child # to_dict_values rest"

text \<open>
  The constructor call \<open>cls(d['name'], d['checksum'], d['permissions'], ...)\<close>: the three
  subscripts are evaluated in this order, each raising KeyError when the key is missing.
\<close>

definition fields :: "jv \<Rightarrow> py_error + (jv \<times> jv \<times> jv)" where
  "fields d =
     (case getitem d ''name'' of Inl e \<Rightarrow> Inl e | Inr n \<Rightarrow>
      case getitem d ''checksum'' of Inl e \<Rightarrow> Inl e | Inr c \<Rightarrow>
      case getitem d ''permissions'' of Inl e \<Rightarrow> Inl e | Inr p \<Rightarrow> Inr (n, c, p))"

fun typed :: "jv \<times> jv \<times> jv \<Rightarrow> py_error + (string \<times> string \<times> int)" where
  "typed (JStr n, JStr c, JInt p) = Inr (n, c, p)"
| "typed _ = Inl IllTyped"

text \<open>
  The key of the dict comprehension: a list or a dict is unhashable (TypeError), a string
  is the child's name.
\<close>

fun as_key :: "jv \<Rightarrow> py_error + string" where
  "as_key (JStr s) = Inr s"
| "as_key (JList xs) = Inl TypeError"
| "as_key (JDict kvs) = Inl TypeError"
| "as_key _ = Inl IllTyped"

section \<open>Decoding a node from its record\<close>

lemma map_of_size:
  "map_of kvs k = Some v \<Longrightarrow> size v < Suc (size_list (size_prod (\<lambda>x. 0) size) kvs)"
  by (induction kvs) (auto split: if_splits)

lemma getitem_size: "getitem d k = Inr v \<Longrightarrow> size v < size d"
  by (cases d) (auto split: option.splits dest: map_of_size)

text \<open>
  \<open>TreeNode.from_dict\<close>, \<open>DirectoryNode.from_dict\<close> and the dict comprehension
  \<open>{child['name']: TreeNode.from_dict(child) for child in d['children']}\<close>, whose
  accumulator is the dict built so far. \<open>FileNode.from_dict\<close> and
  \<open>SymlinkNode.from_dict\<close> are the two constructor calls in the dispatch. The last branch
  is \<open>raise TypeError('Type ' + d['name'] + ' does not exist.')\<close>: a missing name is a
  KeyError, a name that is no string a TypeError of the concatenation. Iterating
  \<open>d['children']\<close>: a list gives its elements; a dict or a string gives strings, on which
  \<open>child['name']\<close> raises TypeError, unless it is empty; an integer or null is not
  iterable.
\<close>

function TreeNode_from_dict :: "jv \<Rightarrow> py_error + node"
  and DirectoryNode_from_dict :: "jv \<Rightarrow> py_error + node"
  and children_from_dicts :: "jv list \<Rightarrow> (string \<times> node) list \<Rightarrow> py_error + (string \<times> node) list"
where
  "TreeNode_from_dict d =
     (case getitem d ''type'' of Inl e \<Rightarrow> Inl e | Inr t \<Rightarrow>
        if t = JStr ''directory'' then DirectoryNode_from_dict d
        else if t = JStr ''file'' then
          (case fields d of Inl e \<Rightarrow> Inl e | Inr f \<Rightarrow>
           case typed f of Inl e \<Rightarrow> Inl e | Inr (n, c, p) \<Rightarrow> Inr (FileNode n c p))
        else if t = JStr ''symlink'' then
          (case fields d of Inl e \<Rightarrow> Inl e | Inr f \<Rightarrow>
           case typed f of Inl e \<Rightarrow> Inl e | Inr (n, c, p) \<Rightarrow> Inr (SymlinkNode n c p))
        else (case getitem d ''name'' of Inl e \<Rightarrow> Inl e | Inr n \<Rightarrow> Inl TypeError))"
| "DirectoryNode_from_dict d =
     (case fields d of Inl e \<Rightarrow> Inl e | Inr f \<Rightarrow>
      case getitem d ''children'' of Inl e \<Rightarrow> Inl e | Inr v \<Rightarrow>
      case (case v of JList cs \<Rightarrow> children_from_dicts cs []
            | JDict kvs \<Rightarrow> if kvs = [] then Inr [] else Inl TypeError
            | JStr s \<Rightarrow> if s = [] then Inr [] else Inl TypeError
            | _ \<Rightarrow> Inl TypeError) of Inl e \<Rightarrow> Inl e | Inr ch \<Rightarrow>
      case typed f of Inl e \<Rightarrow> Inl e | Inr (n, c, p) \<Rightarrow> Inr (DirectoryNode n c p ch))"
| "children_from_dicts [] acc = Inr acc"
| "children_from_dicts (child # rest) acc =
     (case getitem child ''name'' of Inl e \<Rightarrow> Inl e | Inr k \<Rightarrow>
      case TreeNode_from_dict child of Inl e \<Rightarrow> Inl e | Inr nd \<Rightarrow>
      case as_key k of Inl e \<Rightarrow> Inl e | Inr s \<Rightarrow>
      children_from_dicts rest (dict_set acc s nd))"
  by pat_completeness auto
termination
  apply (relation "measure (\<lambda>x. case x of Inl d \<Rightarrow> 2 * size d + 2
        | Inr (Inl d) \<Rightarrow> 2 * size d + 1
        | Inr (Inr (cs, acc)) \<Rightarrow> 2 * size_list size cs + 1)")
      apply (auto dest!: getitem_size)
  done

section \<open>Claims about decoding\<close>

text \<open>
  C5: \<open>TreeNode.from_dict\<close> on a record whose \<open>type\<close> is none of directory, file and
  symlink raises and returns no node: the result is an error, TypeError when the record
  has a \<open>name\<close> (the exception the code raises itself, or the one of concatenating a
  name that is no string), KeyError when it has none.
\<close>

theorem from_dict_unrecognised_type:
  assumes "getitem d ''type'' = Inr t"
    and "t \<noteq> JStr ''directory''" and "t \<noteq> JStr ''file''" and "t \<noteq> JStr ''symlink''"
  shows "TreeNode_from_dict d =
           Inl (if getitem d ''name'' = Inl KeyError then KeyError else TypeError)"
  using assms by (cases d) (auto split: sum.splits option.splits)

theorem from_dict_unrecognised_type_witness:
  "TreeNode_from_dict (JDict [(''type'', JStr ''socket''), (''name'', JStr ''s''),
       (''checksum'', JStr ''ef46db3751d8e999''), (''permissions'', JInt 420)]) = Inl TypeError"
  using from_dict_unrecognised_type
    [of "JDict [(''type'', JStr ''socket''), (''name'', JStr ''s''),
       (''checksum'', JStr ''ef46db3751d8e999''), (''permissions'', JInt 420)]" "JStr ''socket''"]
  by simp

end
